theory Spec2Isabelle
  imports Complex_Main "HOL-Library.Log_Nat" "HOL-Library.Word" "HOL-Library.AList"
begin

unbundle bit_operations_syntax

section \<open>Values, exceptions and the C structs of \<^verbatim>\<open>butter/timerfd.py\<close>\<close>

text \<open>
  The module is modelled as Python 3 runs it on an LP64 Linux host: \<^verbatim>\<open>/\<close> is true
  division, \<^verbatim>\<open>bool(x)\<close> calls \<^verbatim>\<open>__bool__\<close>, \<^verbatim>\<open>round\<close> rounds halves to even and
  returns an integer, a C \<^verbatim>\<open>long\<close> has 64 bits, and \<^verbatim>\<open>uint64_t\<close> is stored with the
  least significant byte first.

  A Python argument is \<^verbatim>\<open>None\<close>, an integer or a finite float. A finite float is the
  rational number it denotes.
\<close>

datatype pyval = PyNone | PyInt int | PyFloat rat

text \<open>Truth value of an argument, as \<^verbatim>\<open>if x:\<close> tests it.\<close>

fun truthy :: "pyval \<Rightarrow> bool" where
  "truthy PyNone = False"
| "truthy (PyInt i) = (i \<noteq> 0)"
| "truthy (PyFloat q) = (q \<noteq> 0)"

text \<open>
  The exceptions the module raises, with the message of the \<^verbatim>\<open>raise\<close> statement.
  \<open>ValueErrorFormat m n\<close> is \<^verbatim>\<open>ValueError(m.format(n))\<close>; \<open>NameError x\<close> is what
  evaluating the undefined name \<open>x\<close> raises; \<open>OverflowError\<close> and \<open>TypeError\<close> are
  raised by cffi when a value cannot be stored in a C \<^verbatim>\<open>long\<close>; \<open>OSErrno e\<close> is the
  \<^verbatim>\<open>OSError\<close> that \<^verbatim>\<open>os.read\<close>, \<^verbatim>\<open>os.close\<close> and \<^verbatim>\<open>select\<close> raise for errno \<open>e\<close>.
\<close>

datatype pyexc =
    ValueError string
  | ValueErrorFormat string int
  | OSError string
  | IOError string
  | MemoryError string
  | NameError string
  | OverflowError
  | TypeError
  | OSErrno int

text \<open>\<^verbatim>\<open>struct timespec\<close> and \<^verbatim>\<open>struct itimerspec\<close> of the cdef.\<close>

record timespec =
  tv_sec :: int
  tv_nsec :: int

record itimerspec =
  it_interval :: timespec
  it_value :: timespec

definition zero_timespec :: timespec where
  "zero_timespec = \<lparr>tv_sec = 0, tv_nsec = 0\<rparr>"

text \<open>\<^verbatim>\<open>_ffi.new('struct itimerspec *')\<close>: cffi zero-initialises new memory.\<close>

definition new_itimerspec :: itimerspec where
  "new_itimerspec = \<lparr>it_interval = zero_timespec, it_value = zero_timespec\<rparr>"

text \<open>
  Storing a Python value in a field of type \<^verbatim>\<open>long\<close>: cffi accepts an integer in
  the range of the type, raises \<^verbatim>\<open>OverflowError\<close> for any other integer and
  \<^verbatim>\<open>TypeError\<close> for a float or \<^verbatim>\<open>None\<close>.
\<close>

definition long_fits :: "int \<Rightarrow> bool" where
  "long_fits v = (- (2 ^ 63) \<le> v \<and> v < 2 ^ 63)"

fun to_c_long :: "pyval \<Rightarrow> pyexc + int" where
  "to_c_long (PyInt i) = (if long_fits i then Inr i else Inl OverflowError)"
| "to_c_long (PyFloat q) = Inl TypeError"
| "to_c_long PyNone = Inl TypeError"

text \<open>
  Constants the source takes from \<^verbatim>\<open>errno\<close> and from \<^verbatim>\<open><sys/timerfd.h>\<close>,
  \<^verbatim>\<open><time.h>\<close>, with their values on Linux.
\<close>

definition EBADF :: int where "EBADF = 9"
definition ENOMEM :: int where "ENOMEM = 12"
definition EFAULT :: int where "EFAULT = 14"
definition ENODEV :: int where "ENODEV = 19"
definition EINVAL :: int where "EINVAL = 22"
definition ENFILE :: int where "ENFILE = 23"
definition EMFILE :: int where "EMFILE = 24"

definition CLOCK_REALTIME :: int where "CLOCK_REALTIME = 0"
definition CLOCK_MONOTONIC :: int where "CLOCK_MONOTONIC = 1"
definition TFD_TIMER_ABSTIME :: int where "TFD_TIMER_ABSTIME = 1"
definition TFD_NONBLOCK :: int where "TFD_NONBLOCK = 2048"
definition TFD_CLOEXEC :: int where "TFD_CLOEXEC = 524288"

section \<open>Floating point\<close>

text \<open>
  \<^verbatim>\<open>round(x)\<close> on a float: the nearest integer, a tie going to the even one.
\<close>

definition py_round :: "rat \<Rightarrow> int" where
  "py_round r =
     (let f = \<lfloor>r\<rfloor>; d = r - of_int f
      in if d < 1 / 2 then f
         else if 1 / 2 < d then f + 1
         else if even f then f else f + 1)"

text \<open>
  Rounding to 53 significant bits, to nearest with ties to even: a value whose integer
  part has more than 53 bits loses its low \<open>s\<close> bits; a smaller one is rounded to an
  integer.
\<close>

definition round53 :: "rat \<Rightarrow> rat" where
  "round53 a =
     (let s = nat (bitlen \<lfloor>\<bar>a\<bar>\<rfloor> - 53)
      in of_int (py_round (a / 2 ^ s)) * 2 ^ s)"

text \<open>
  Rounding of an exact result to binary64. The value is scaled by \<open>2 ^ 1074\<close>, so
  that the smallest subnormal number is 1 and every number of the format is an integer
  of at most 53 bits times a power of two. Overflow to infinity is left out: the
  arguments the module rounds (a field of 64 bits, a quotient by \<open>10 ^ 9\<close>, a product
  of \<open>10 ^ 9\<close> with a fraction) stay far below \<open>2 ^ 1024\<close>.
\<close>

definition fl64 :: "rat \<Rightarrow> rat" where
  "fl64 q = round53 (q * 2 ^ 1074) / 2 ^ 1074"

text \<open>\<^verbatim>\<open>math.modf\<close>: fractional and integral part, both with the sign of the argument.\<close>

definition trunc :: "rat \<Rightarrow> int" where
  "trunc q = (if 0 \<le> q then \<lfloor>q\<rfloor> else \<lceil>q\<rceil>)"

definition modf :: "rat \<Rightarrow> rat \<times> rat" where
  "modf q = (q - of_int (trunc q), of_int (trunc q))"

section \<open>TimerSpec\<close>

text \<open>
  A \<^verbatim>\<open>TimerSpec\<close> object holds the struct \<^verbatim>\<open>_timerspec\<close>; \<open>inst_dict\<close> holds the
  attributes that are assigned to the object and are not properties of the class.
\<close>

record TimerSpec =
  p_timerspec :: itimerspec
  inst_dict :: "(string \<times> pyval) list"

text \<open>The four properties that read and write one field of the struct.\<close>

definition reoccuring_seconds :: "TimerSpec \<Rightarrow> int" where
  "reoccuring_seconds self = tv_sec (it_interval (p_timerspec self))"

definition reoccuring_nano_seconds :: "TimerSpec \<Rightarrow> int" where
  "reoccuring_nano_seconds self = tv_nsec (it_interval (p_timerspec self))"

definition one_off_seconds :: "TimerSpec \<Rightarrow> int" where
  "one_off_seconds self = tv_sec (it_value (p_timerspec self))"

definition one_off_nano_seconds :: "TimerSpec \<Rightarrow> int" where
  "one_off_nano_seconds self = tv_nsec (it_value (p_timerspec self))"

definition reoccuring_seconds_setter :: "TimerSpec \<Rightarrow> pyval \<Rightarrow> pyexc + TimerSpec" where
  "reoccuring_seconds_setter self val =
     (case to_c_long val of
        Inl e \<Rightarrow> Inl e
      | Inr v \<Rightarrow> Inr (self\<lparr>p_timerspec :=
          (p_timerspec self)\<lparr>it_interval := (it_interval (p_timerspec self))\<lparr>tv_sec := v\<rparr>\<rparr>\<rparr>))"

definition reoccuring_nano_seconds_setter :: "TimerSpec \<Rightarrow> pyval \<Rightarrow> pyexc + TimerSpec" where
  "reoccuring_nano_seconds_setter self val =
     (case to_c_long val of
        Inl e \<Rightarrow> Inl e
      | Inr v \<Rightarrow> Inr (self\<lparr>p_timerspec :=
          (p_timerspec self)\<lparr>it_interval := (it_interval (p_timerspec self))\<lparr>tv_nsec := v\<rparr>\<rparr>\<rparr>))"

definition one_off_seconds_setter :: "TimerSpec \<Rightarrow> pyval \<Rightarrow> pyexc + TimerSpec" where
  "one_off_seconds_setter self val =
     (case to_c_long val of
        Inl e \<Rightarrow> Inl e
      | Inr v \<Rightarrow> Inr (self\<lparr>p_timerspec :=
          (p_timerspec self)\<lparr>it_value := (it_value (p_timerspec self))\<lparr>tv_sec := v\<rparr>\<rparr>\<rparr>))"

definition one_off_nano_seconds_setter :: "TimerSpec \<Rightarrow> pyval \<Rightarrow> pyexc + TimerSpec" where
  "one_off_nano_seconds_setter self val =
     (case to_c_long val of
        Inl e \<Rightarrow> Inl e
      | Inr v \<Rightarrow> Inr (self\<lparr>p_timerspec :=
          (p_timerspec self)\<lparr>it_value := (it_value (p_timerspec self))\<lparr>tv_nsec := v\<rparr>\<rparr>\<rparr>))"

text \<open>
  The first half of both float setters: a float is split by \<^verbatim>\<open>modf\<close> into
  \<^verbatim>\<open>int(y)\<close> seconds and \<^verbatim>\<open>int(round(1000000000 * x))\<close> nanoseconds, the product
  being a float; any other value is the seconds, with no nanoseconds.
\<close>

definition split_val :: "pyval \<Rightarrow> pyval \<times> pyval" where
  "split_val val =
     (case val of
        PyFloat q \<Rightarrow>
          (let (x, y) = modf q
           in (PyInt (trunc y), PyInt (py_round (fl64 (1000000000 * x)))))
      | _ \<Rightarrow> (val, PyInt 0))"

definition reoccuring_setter :: "TimerSpec \<Rightarrow> pyval \<Rightarrow> pyexc + TimerSpec" where
  "reoccuring_setter self val =
     (let (sec, nano) = split_val val
      in case reoccuring_seconds_setter self sec of
           Inl e \<Rightarrow> Inl e
         | Inr self' \<Rightarrow> reoccuring_nano_seconds_setter self' nano)"

definition one_off_setter :: "TimerSpec \<Rightarrow> pyval \<Rightarrow> pyexc + TimerSpec" where
  "one_off_setter self val =
     (let (sec, nano) = split_val val
      in case one_off_seconds_setter self sec of
           Inl e \<Rightarrow> Inl e
         | Inr self' \<Rightarrow> one_off_nano_seconds_setter self' nano)"

text \<open>
  The float getters: \<^verbatim>\<open>seconds + (nano_seconds / 1000000000)\<close>. The quotient of
  the two integers is rounded to a float, the seconds are converted to a float, and
  the sum is rounded.
\<close>

definition reoccuring :: "TimerSpec \<Rightarrow> rat" where
  "reoccuring self =
     fl64 (fl64 (of_int (reoccuring_seconds self))
           + fl64 (of_int (reoccuring_nano_seconds self) / 1000000000))"

definition one_off :: "TimerSpec \<Rightarrow> rat" where
  "one_off self =
     fl64 (fl64 (of_int (one_off_seconds self))
           + fl64 (of_int (one_off_nano_seconds self) / 1000000000))"

text \<open>\<^verbatim>\<open>__bool__\<close>, \<^verbatim>\<open>enabled\<close>, \<^verbatim>\<open>disabled\<close> and \<^verbatim>\<open>disable\<close>.\<close>

definition TimerSpec_bool :: "TimerSpec \<Rightarrow> bool" where
  "TimerSpec_bool self = (if one_off self = 0 then False else True)"

definition enabled :: "TimerSpec \<Rightarrow> bool" where
  "enabled self = TimerSpec_bool self"


definition disable :: "TimerSpec \<Rightarrow> pyexc + TimerSpec" where
  "disable self = one_off_setter self (PyFloat 0)"

text \<open>
  The constructor. Its keyword arguments all default to \<^verbatim>\<open>None\<close>. A given
  \<^verbatim>\<open>timerspec\<close> is a pointer to a struct, which is true when it is not NULL. The
  right-hand sides \<^verbatim>\<open>reoccuring_sec\<close>, \<^verbatim>\<open>reoccuring_nano\<close>, \<^verbatim>\<open>one_off_sec\<close> and
  \<^verbatim>\<open>one_off_nano\<close> are names that neither the function nor the module binds.
\<close>

record TimerSpec_args =
  arg_reoccuring :: pyval
  arg_reoccuring_seconds :: pyval
  arg_reoccuring_nano_seconds :: pyval
  arg_one_off :: pyval
  arg_one_off_seconds :: pyval
  arg_one_off_nano_seconds :: pyval
  arg_timerspec :: "itimerspec option"

definition no_args :: TimerSpec_args where
  "no_args = \<lparr>arg_reoccuring = PyNone, arg_reoccuring_seconds = PyNone,
     arg_reoccuring_nano_seconds = PyNone, arg_one_off = PyNone,
     arg_one_off_seconds = PyNone, arg_one_off_nano_seconds = PyNone,
     arg_timerspec = None\<rparr>"

definition TimerSpec_init :: "TimerSpec_args \<Rightarrow> pyexc + TimerSpec" where
  "TimerSpec_init a =
     (let self0 = \<lparr>p_timerspec = new_itimerspec, inst_dict = []\<rparr>;
          self1 = (case arg_timerspec a of
                     None \<Rightarrow> self0
                   | Some t \<Rightarrow> self0\<lparr>p_timerspec :=
                       \<lparr>it_interval = \<lparr>tv_sec = tv_sec (it_interval t),
                                       tv_nsec = tv_nsec (it_interval t)\<rparr>,
                        it_value = \<lparr>tv_sec = tv_sec (it_value t),
                                    tv_nsec = tv_nsec (it_value t)\<rparr>\<rparr>\<rparr>)
      in case (if truthy (arg_reoccuring a)
               then reoccuring_setter self1 (arg_reoccuring a) else Inr self1) of
           Inl e \<Rightarrow> Inl e
         | Inr self2 \<Rightarrow>
             if truthy (arg_reoccuring_seconds a) then Inl (NameError ''reoccuring_sec'')
             else if truthy (arg_reoccuring_nano_seconds a)
               then Inl (NameError ''reoccuring_nano'')
             else (case (if truthy (arg_one_off a)
                         then one_off_setter self2 (arg_one_off a) else Inr self2) of
                     Inl e \<Rightarrow> Inl e
                   | Inr self3 \<Rightarrow>
                       if truthy (arg_one_off_seconds a) then Inl (NameError ''one_off_sec'')
                       else if truthy (arg_one_off_nano_seconds a)
                         then Inl (NameError ''one_off_nano'')
                       else Inr self3))"


text \<open>\<^verbatim>\<open>__timerspec__\<close> hands out the struct.\<close>

definition timerspec_of :: "TimerSpec \<Rightarrow> itimerspec" where
  "timerspec_of self = p_timerspec self"

section \<open>The kernel\<close>

text \<open>
  The kernel is a parameter of the model: a record of the six operations the module
  calls, each a function of the kernel's state \<open>'k\<close>. \<^verbatim>\<open>timerfd_create\<close> answers
  with its return value and \<^verbatim>\<open>errno\<close>; \<^verbatim>\<open>timerfd_settime\<close> and
  \<^verbatim>\<open>timerfd_gettime\<close> answer with return value, \<^verbatim>\<open>errno\<close> and the struct they
  wrote; \<^verbatim>\<open>select\<close>, \<^verbatim>\<open>os.read\<close> and \<^verbatim>\<open>os.close\<close> return or raise
  \<^verbatim>\<open>OSError\<close>, and the first two may block for ever, which is \<open>None\<close>.
\<close>

record 'k kernel =
  k_timerfd_create :: "int \<Rightarrow> int \<Rightarrow> 'k \<Rightarrow> (int \<times> int) \<times> 'k"
  k_timerfd_settime :: "int \<Rightarrow> int \<Rightarrow> itimerspec \<Rightarrow> 'k \<Rightarrow> (int \<times> int \<times> itimerspec) \<times> 'k"
  k_timerfd_gettime :: "int \<Rightarrow> 'k \<Rightarrow> (int \<times> int \<times> itimerspec) \<times> 'k"
  k_select :: "int \<Rightarrow> 'k \<Rightarrow> ((pyexc + unit) \<times> 'k) option"
  k_read :: "int \<Rightarrow> nat \<Rightarrow> 'k \<Rightarrow> ((pyexc + 8 word list) \<times> 'k) option"
  k_close :: "int \<Rightarrow> 'k \<Rightarrow> (pyexc + unit) \<times> 'k"

text \<open>
  The calls that reach the kernel are recorded, in order, beside the kernel's state.
\<close>

datatype syscall =
    Call_timerfd_create int int
  | Call_timerfd_settime int int itimerspec
  | Call_timerfd_gettime int
  | Call_select int
  | Call_read int nat
  | Call_close int

type_synonym 'k world = "'k \<times> syscall list"

section \<open>The module's functions\<close>

text \<open>The branch \<^verbatim>\<open>if fd < 0:\<close> of \<^verbatim>\<open>timerfd\<close>.\<close>

definition timerfd_raise :: "int \<Rightarrow> int \<Rightarrow> pyexc" where
  "timerfd_raise clock_type err =
     (if err = EINVAL then
        (if (clock_type AND (CLOCK_MONOTONIC OR CLOCK_REALTIME)) = 0
         then ValueError ''clock_type is not one of CLOCK_MONOTONIC or CLOCK_REALTIME''
         else ValueError ''Invalid value in flags'')
      else if err = EMFILE then OSError ''Max per process FD limit reached''
      else if err = ENFILE then OSError ''Max system FD limit reached''
      else if err = ENODEV then NameError ''OsError''
      else if err = ENOMEM then MemoryError ''Insufficent kernel memory available''
      else ValueErrorFormat ''Unknown Error: {}'' err)"

definition timerfd :: "'k kernel \<Rightarrow> int \<Rightarrow> int \<Rightarrow> 'k world \<Rightarrow> (pyexc + int) \<times> 'k world" where
  "timerfd K clock_type flags w =
     (let ((fd, err), k') = k_timerfd_create K clock_type flags (fst w);
          w' = (k', snd w @ [Call_timerfd_create clock_type flags])
      in if fd < 0 then (Inl (timerfd_raise clock_type err), w') else (Inr fd, w'))"

text \<open>The branch \<^verbatim>\<open>if ret < 0:\<close> of \<^verbatim>\<open>timerfd_gettime\<close>.\<close>

definition timerfd_gettime_raise :: "int \<Rightarrow> pyexc" where
  "timerfd_gettime_raise err =
     (if err = EBADF then ValueError ''fd is not a valid file descriptor''
      else if err = EFAULT
        then IOError ''curr_val is not a valid pointer (internal/bug, let us know)''
      else if err = EINVAL then ValueError ''fd is not a valid timerfd''
      else ValueErrorFormat ''Unknown Error: {}'' err)"

definition timerfd_gettime :: "'k kernel \<Rightarrow> int \<Rightarrow> 'k world \<Rightarrow> (pyexc + TimerSpec) \<times> 'k world" where
  "timerfd_gettime K fd w =
     (let ((ret, err, curr_val), k') = k_timerfd_gettime K fd (fst w);
          w' = (k', snd w @ [Call_timerfd_gettime fd])
      in if ret < 0 then (Inl (timerfd_gettime_raise err), w')
         else (TimerSpec_init (no_args\<lparr>arg_timerspec := Some curr_val\<rparr>), w'))"

text \<open>The branch \<^verbatim>\<open>if ret < 0:\<close> of \<^verbatim>\<open>timerfd_settime\<close>.\<close>

definition timerfd_settime_raise :: "itimerspec \<Rightarrow> int \<Rightarrow> pyexc" where
  "timerfd_settime_raise timer_spec err =
     (if err = EINVAL then
        (if tv_sec (it_interval timer_spec) > 999999999
         then ValueError ''Nano seconds in it_interval is > 999,999,999''
         else if tv_nsec (it_value timer_spec) > 999999999
         then ValueError ''Nano seconds in it_value is > 999,999,999''
         else ValueError ''flags is invalid or fd not a timerfd'')
      else if err = EFAULT
        then IOError ''timer_spec does not point to a valid timer specfication''
      else if err = EMFILE then OSError ''Max per process FD limit reached''
      else if err = ENFILE then OSError ''Max system FD limit reached''
      else if err = ENODEV then NameError ''OsError''
      else if err = ENOMEM then MemoryError ''Insufficent kernel memory available''
      else ValueErrorFormat ''Unknown Error: {}'' err)"

section \<open>Timerfd\<close>

text \<open>A \<^verbatim>\<open>Timerfd\<close> object: the attributes \<^verbatim>\<open>_fd\<close> and \<^verbatim>\<open>_timerspec\<close>.\<close>

record Timerfd =
  h_fd :: int
  h_timerspec :: TimerSpec

definition fileno :: "Timerfd \<Rightarrow> int" where
  "fileno self = h_fd self"

text \<open>
  \<^verbatim>\<open>timerfd_settime\<close> takes a struct or an object with \<^verbatim>\<open>__timerspec__\<close>, and a
  descriptor or an object with \<^verbatim>\<open>fileno\<close>.
\<close>

datatype spec_arg = RawSpec itimerspec | SpecObj TimerSpec

datatype fd_arg = FdInt int | FdObj Timerfd

definition timerfd_settime ::
  "'k kernel \<Rightarrow> fd_arg \<Rightarrow> spec_arg \<Rightarrow> int \<Rightarrow> 'k world \<Rightarrow> (pyexc + TimerSpec) \<times> 'k world" where
  "timerfd_settime K fd timer_spec flags w =
     (let timer_spec' = (case timer_spec of SpecObj obj \<Rightarrow> timerspec_of obj | RawSpec t \<Rightarrow> t);
          fd' = (case fd of FdObj obj \<Rightarrow> fileno obj | FdInt n \<Rightarrow> n);
          ((ret, err, old_timer_spec), k') = k_timerfd_settime K fd' flags timer_spec' (fst w);
          w' = (k', snd w @ [Call_timerfd_settime fd' flags timer_spec'])
      in if ret < 0 then (Inl (timerfd_settime_raise timer_spec' err), w')
         else (TimerSpec_init (no_args\<lparr>arg_timerspec := Some old_timer_spec\<rparr>), w'))"


definition Timerfd_update ::
  "'k kernel \<Rightarrow> Timerfd \<Rightarrow> TimerSpec \<Rightarrow> bool \<Rightarrow> 'k world \<Rightarrow> (pyexc + TimerSpec) \<times> 'k world" where
  "Timerfd_update K self timerspec absolute w =
     (let flags = (if absolute then TFD_TIMER_ABSTIME else 0)
      in timerfd_settime K (FdInt (h_fd self)) (SpecObj timerspec) flags w)"

definition Timerfd_set_one_off ::
  "'k kernel \<Rightarrow> Timerfd \<Rightarrow> pyval \<Rightarrow> pyval \<Rightarrow> bool \<Rightarrow> 'k world
     \<Rightarrow> (pyexc + TimerSpec) \<times> 'k world" where
  "Timerfd_set_one_off K self seconds nano_seconds absolute w =
     (case TimerSpec_init no_args of
        Inl e \<Rightarrow> (Inl e, w)
      | Inr timer \<Rightarrow>
          (case one_off_setter timer seconds of
             Inl e \<Rightarrow> (Inl e, w)
           | Inr timer1 \<Rightarrow>
               (case one_off_setter timer1 nano_seconds of
                  Inl e \<Rightarrow> (Inl e, w)
                | Inr timer2 \<Rightarrow> Timerfd_update K self timer2 absolute w)))"

text \<open>
  In \<^verbatim>\<open>set_reoccuring\<close> the assignment \<^verbatim>\<open>timer.reoccuring_nano = nano_seconds\<close>
  names no property of \<^verbatim>\<open>TimerSpec\<close>: it binds an attribute of the object.
\<close>

definition Timerfd_set_reoccuring ::
  "'k kernel \<Rightarrow> Timerfd \<Rightarrow> pyval \<Rightarrow> pyval \<Rightarrow> pyval \<Rightarrow> pyval \<Rightarrow> bool \<Rightarrow> 'k world
     \<Rightarrow> (pyexc + TimerSpec) \<times> 'k world" where
  "Timerfd_set_reoccuring K self seconds nano_seconds next_seconds next_nano_seconds absolute w =
     (case TimerSpec_init no_args of
        Inl e \<Rightarrow> (Inl e, w)
      | Inr timer \<Rightarrow>
          (let timer0 = timer\<lparr>inst_dict := (''reoccuring_nano'', nano_seconds) # inst_dict timer\<rparr>
           in case reoccuring_setter timer0 seconds of
                Inl e \<Rightarrow> (Inl e, w)
              | Inr timer1 \<Rightarrow>
                  (let (first, second) =
                         (if truthy next_seconds \<or> truthy next_nano_seconds
                          then (next_nano_seconds, next_seconds)
                          else (nano_seconds, seconds))
                   in case one_off_setter timer1 first of
                        Inl e \<Rightarrow> (Inl e, w)
                      | Inr timer2 \<Rightarrow>
                          (case one_off_setter timer2 second of
                             Inl e \<Rightarrow> (Inl e, w)
                           | Inr timer3 \<Rightarrow> Timerfd_update K self timer3 absolute w))))"

definition Timerfd_get_current ::
  "'k kernel \<Rightarrow> Timerfd \<Rightarrow> 'k world \<Rightarrow> (pyexc + TimerSpec) \<times> 'k world" where
  "Timerfd_get_current K self w = timerfd_gettime K (h_fd self) w"

text \<open>
  \<^verbatim>\<open>wait\<close>: the eight bytes read are copied into a \<^verbatim>\<open>uint64_t\<close>, whose value is
  returned. The slice assignment raises \<^verbatim>\<open>ValueError\<close> when \<^verbatim>\<open>os.read\<close> returned
  fewer bytes.
\<close>

fun le_decode :: "8 word list \<Rightarrow> nat" where
  "le_decode [] = 0"
| "le_decode (b # bs) = unat b + 256 * le_decode bs"

definition Timerfd_wait ::
  "'k kernel \<Rightarrow> Timerfd \<Rightarrow> 'k world \<Rightarrow> ((pyexc + nat) \<times> 'k world) option" where
  "Timerfd_wait K self w =
     (case k_select K (h_fd self) (fst w) of
        None \<Rightarrow> None
      | Some (Inl e, k1) \<Rightarrow> Some (Inl e, (k1, snd w @ [Call_select (h_fd self)]))
      | Some (Inr u, k1) \<Rightarrow>
          (case k_read K (h_fd self) 8 k1 of
             None \<Rightarrow> None
           | Some (Inl e, k2) \<Rightarrow>
               Some (Inl e, (k2, snd w @ [Call_select (h_fd self), Call_read (h_fd self) 8]))
           | Some (Inr data, k2) \<Rightarrow>
               Some (if length data = 8 then Inr (le_decode data)
                     else Inl (ValueError ''right operand length must match slice length''),
                     (k2, snd w @ [Call_select (h_fd self), Call_read (h_fd self) 8]))))"


definition Timerfd_enabled ::
  "'k kernel \<Rightarrow> Timerfd \<Rightarrow> 'k world \<Rightarrow> (pyexc + bool) \<times> 'k world" where
  "Timerfd_enabled K self w =
     (case Timerfd_get_current K self w of
        (Inl e, w') \<Rightarrow> (Inl e, w')
      | (Inr ts, w') \<Rightarrow> (Inr (enabled ts), w'))"


definition Timerfd_disable ::
  "'k kernel \<Rightarrow> Timerfd \<Rightarrow> 'k world \<Rightarrow> (pyexc + unit) \<times> 'k world" where
  "Timerfd_disable K self w =
     (case Timerfd_get_current K self w of
        (Inl e, w') \<Rightarrow> (Inl e, w')
      | (Inr timer, w') \<Rightarrow>
          (case disable timer of
             Inl e \<Rightarrow> (Inl e, w')
           | Inr timer' \<Rightarrow>
               (case Timerfd_update K self timer' False w' of
                  (Inl e, w'') \<Rightarrow> (Inl e, w'')
                | (Inr old, w'') \<Rightarrow> (Inr (), w''))))"

section \<open>Two kernels\<close>

text \<open>A kernel that fails every call with the same errno.\<close>

definition errno_kernel :: "int \<Rightarrow> unit kernel" where
  "errno_kernel e =
     \<lparr>k_timerfd_create = (\<lambda>clock_type flags k. ((- 1, e), k)),
      k_timerfd_settime = (\<lambda>fd flags new_value k. ((- 1, e, new_itimerspec), k)),
      k_timerfd_gettime = (\<lambda>fd k. ((- 1, e, new_itimerspec), k)),
      k_select = (\<lambda>fd k. Some (Inl (OSErrno e), k)),
      k_read = (\<lambda>fd n k. Some (Inl (OSErrno e), k)),
      k_close = (\<lambda>fd k. (Inl (OSErrno e), k))\<rparr>"

text \<open>
  A reference kernel, after section 6 of the specification and the manual page
  \<^verbatim>\<open>timerfd_create(2)\<close>. Its state lists the open timer descriptors, each with the
  flags it was created with, its current setting (time to the next expiration, and
  interval) and its counter of unread expirations, a 64-bit value.
  Time passes only while a call blocks: \<^verbatim>\<open>select\<close> or a blocking \<^verbatim>\<open>read\<close> on an
  armed timer with no unread expiration returns at the first expiration, and on a
  disarmed one never. The clock stands at zero, so an absolute setting reads as a
  relative one.
\<close>

record ktimer =
  kt_flags :: int
  kt_spec :: itimerspec
  kt_expirations :: "64 word"

type_synonym kstate = "(int \<times> ktimer) list"

definition EAGAIN :: int where "EAGAIN = 11"

definition valid_timespec :: "timespec \<Rightarrow> bool" where
  "valid_timespec t = (0 \<le> tv_sec t \<and> 0 \<le> tv_nsec t \<and> tv_nsec t \<le> 999999999)"

definition ref_create :: "int \<Rightarrow> int \<Rightarrow> kstate \<Rightarrow> (int \<times> int) \<times> kstate" where
  "ref_create clock_type flags k =
     (if (clock_type = CLOCK_REALTIME \<or> clock_type = CLOCK_MONOTONIC)
         \<and> flags \<in> {0, TFD_NONBLOCK, TFD_CLOEXEC, TFD_NONBLOCK OR TFD_CLOEXEC}
      then (case filter (\<lambda>n. map_of k n = None) (map int [0 ..< Suc (length k)]) of
              [] \<Rightarrow> ((- 1, EMFILE), k)
            | fd # _ \<Rightarrow>
                ((fd, 0), (fd, \<lparr>kt_flags = flags, kt_spec = new_itimerspec,
                                kt_expirations = 0\<rparr>) # k))
      else ((- 1, EINVAL), k))"

definition ref_settime ::
  "int \<Rightarrow> int \<Rightarrow> itimerspec \<Rightarrow> kstate \<Rightarrow> (int \<times> int \<times> itimerspec) \<times> kstate" where
  "ref_settime fd flags new_value k =
     (case map_of k fd of
        None \<Rightarrow> ((- 1, EBADF, new_itimerspec), k)
      | Some t \<Rightarrow>
          if (flags = 0 \<or> flags = TFD_TIMER_ABSTIME)
             \<and> valid_timespec (it_interval new_value)
             \<and> valid_timespec (it_value new_value)
          then ((0, 0, kt_spec t),
                AList.update fd (t\<lparr>kt_spec := new_value, kt_expirations := 0\<rparr>) k)
          else ((- 1, EINVAL, new_itimerspec), k))"

definition ref_gettime :: "int \<Rightarrow> kstate \<Rightarrow> (int \<times> int \<times> itimerspec) \<times> kstate" where
  "ref_gettime fd k =
     (case map_of k fd of
        None \<Rightarrow> ((- 1, EBADF, new_itimerspec), k)
      | Some t \<Rightarrow> ((0, 0, kt_spec t), k))"

text \<open>The timer after its next expiration: the interval is the time to the following one.\<close>

definition expire :: "ktimer \<Rightarrow> ktimer" where
  "expire t = t\<lparr>kt_spec := (kt_spec t)\<lparr>it_value := it_interval (kt_spec t)\<rparr>,
                kt_expirations := 1\<rparr>"

definition ref_select :: "int \<Rightarrow> kstate \<Rightarrow> ((pyexc + unit) \<times> kstate) option" where
  "ref_select fd k =
     (case map_of k fd of
        None \<Rightarrow> Some (Inl (OSErrno EBADF), k)
      | Some t \<Rightarrow>
          if kt_expirations t = 0
          then (if it_value (kt_spec t) = zero_timespec then None
                else Some (Inr (), AList.update fd (expire t) k))
          else Some (Inr (), k))"

text \<open>The counter as the kernel writes it: \<open>n\<close> bytes, least significant first.\<close>

fun le_encode :: "nat \<Rightarrow> nat \<Rightarrow> 8 word list" where
  "le_encode 0 v = []"
| "le_encode (Suc n) v = of_nat (v mod 256) # le_encode n (v div 256)"

definition ref_read :: "int \<Rightarrow> nat \<Rightarrow> kstate \<Rightarrow> ((pyexc + 8 word list) \<times> kstate) option" where
  "ref_read fd n k =
     (case map_of k fd of
        None \<Rightarrow> Some (Inl (OSErrno EBADF), k)
      | Some t \<Rightarrow>
          if n < 8 then Some (Inl (OSErrno EINVAL), k)
          else if kt_expirations t = 0
            then (if (kt_flags t AND TFD_NONBLOCK) = 0
                  then (if it_value (kt_spec t) = zero_timespec then None
                        else Some (Inr (le_encode 8 1),
                                   AList.update fd ((expire t)\<lparr>kt_expirations := 0\<rparr>) k))
                  else Some (Inl (OSErrno EAGAIN), k))
          else Some (Inr (le_encode 8 (unat (kt_expirations t))),
                     AList.update fd (t\<lparr>kt_expirations := 0\<rparr>) k))"

definition ref_close :: "int \<Rightarrow> kstate \<Rightarrow> (pyexc + unit) \<times> kstate" where
  "ref_close fd k =
     (case map_of k fd of
        None \<Rightarrow> (Inl (OSErrno EBADF), k)
      | Some t \<Rightarrow> (Inr (), AList.delete fd k))"

definition ref_kernel :: "kstate kernel" where
  "ref_kernel =
     \<lparr>k_timerfd_create = ref_create,
      k_timerfd_settime = ref_settime,
      k_timerfd_gettime = ref_gettime,
      k_select = ref_select,
      k_read = ref_read,
      k_close = ref_close\<rparr>"

section \<open>Example objects\<close>


text \<open>
  The same descriptor with a periodic timer that has expired twice since the last read.
\<close>

definition example_timer :: ktimer where
  "example_timer =
     \<lparr>kt_flags = 0,
      kt_spec = \<lparr>it_interval = \<lparr>tv_sec = 1, tv_nsec = 0\<rparr>,
                 it_value = \<lparr>tv_sec = 0, tv_nsec = 500000000\<rparr>\<rparr>,
      kt_expirations = 2\<rparr>"

definition example_armed_kstate :: kstate where
  "example_armed_kstate = [(3, example_timer)]"


definition example_handle :: Timerfd where
  "example_handle = \<lparr>h_fd = 3, h_timerspec = \<lparr>p_timerspec = new_itimerspec, inst_dict = []\<rparr>\<rparr>"

section \<open>Basic facts\<close>

lemma TimerSpec_init_no_args:
  "TimerSpec_init no_args = Inr \<lparr>p_timerspec = new_itimerspec, inst_dict = []\<rparr>"
  by (simp add: TimerSpec_init_def no_args_def)

lemma TimerSpec_init_clone:
  "TimerSpec_init (no_args\<lparr>arg_timerspec := Some t\<rparr>) = Inr \<lparr>p_timerspec = t, inst_dict = []\<rparr>"
  by (simp add: TimerSpec_init_def no_args_def)

lemma timerfd_settime_log:
  "snd (snd (timerfd_settime K (FdInt fd) (SpecObj ts) flags w))
     = snd w @ [Call_timerfd_settime fd flags (p_timerspec ts)]"
  by (simp add: timerfd_settime_def timerspec_of_def Let_def split: prod.splits)

lemma Timerfd_update_log:
  "snd (snd (Timerfd_update K self ts absolute w))
     = snd w @ [Call_timerfd_settime (h_fd self) (if absolute then TFD_TIMER_ABSTIME else 0)
                  (p_timerspec ts)]"
  by (simp add: Timerfd_update_def timerfd_settime_log)

lemma timerfd_gettime_log:
  "snd (snd (timerfd_gettime K fd w)) = snd w @ [Call_timerfd_gettime fd]"
  by (simp add: timerfd_gettime_def Let_def split: prod.splits)

lemmas setter_defs = new_itimerspec_def zero_timespec_def
  one_off_setter_def reoccuring_setter_def split_val_def
  one_off_seconds_setter_def one_off_nano_seconds_setter_def
  reoccuring_seconds_setter_def reoccuring_nano_seconds_setter_def long_fits_def

lemmas errno_defs = EBADF_def ENOMEM_def EFAULT_def ENODEV_def EINVAL_def ENFILE_def
  EMFILE_def EAGAIN_def

section \<open>The convenience setters of Timerfd\<close>

text \<open>
  C1. The specification asks that \<^verbatim>\<open>set_reoccuring(seconds, nano_seconds)\<close> submits
  interval and initial value \<open>{seconds, nano_seconds}\<close>. The source does not: the
  nanoseconds are bound to an attribute that is no property, and each assignment to the
  float properties writes both fields. For \<^verbatim>\<open>set_reoccuring(1, 500)\<close>, on any kernel
  and handle, the struct passed to \<^verbatim>\<open>timerfd_settime\<close> has interval \<open>{1, 0}\<close> and
  initial value \<open>{1, 0}\<close>.
\<close>

theorem set_reoccuring_loses_nano_seconds:
  "snd (snd (Timerfd_set_reoccuring K self (PyInt 1) (PyInt 500) (PyInt 0) (PyInt 0) False w))
     = snd w @ [Call_timerfd_settime (h_fd self) 0
         \<lparr>it_interval = \<lparr>tv_sec = 1, tv_nsec = 0\<rparr>,
          it_value = \<lparr>tv_sec = 1, tv_nsec = 0\<rparr>\<rparr>]"
  by (simp add: Timerfd_set_reoccuring_def TimerSpec_init_no_args Timerfd_update_log setter_defs)

text \<open>
  C4. The specification asks that \<^verbatim>\<open>set_one_off(seconds, nano_seconds)\<close> submits
  interval \<open>{0, 0}\<close> and initial value \<open>{seconds, nano_seconds}\<close>. The source assigns
  both arguments to the same property, so the second replaces the first:
  \<^verbatim>\<open>set_one_off(5)\<close> submits the initial value \<open>{0, 0}\<close>, which disarms the timer,
  and \<^verbatim>\<open>set_one_off(5, 500)\<close> submits \<open>{500, 0}\<close>.
\<close>

theorem set_one_off_nano_seconds_replace_seconds:
  "snd (snd (Timerfd_set_one_off K self (PyInt 5) (PyInt 0) False w))
     = snd w @ [Call_timerfd_settime (h_fd self) 0
         \<lparr>it_interval = \<lparr>tv_sec = 0, tv_nsec = 0\<rparr>,
          it_value = \<lparr>tv_sec = 0, tv_nsec = 0\<rparr>\<rparr>]
   \<and> snd (snd (Timerfd_set_one_off K self (PyInt 5) (PyInt 500) False w))
     = snd w @ [Call_timerfd_settime (h_fd self) 0
         \<lparr>it_interval = \<lparr>tv_sec = 0, tv_nsec = 0\<rparr>,
          it_value = \<lparr>tv_sec = 500, tv_nsec = 0\<rparr>\<rparr>]"
  by (simp add: Timerfd_set_one_off_def TimerSpec_init_no_args Timerfd_update_log setter_defs)

section \<open>Error mapping\<close>

text \<open>
  C5. The specification asks that every documented errno maps to its listed error, and
  that \<^verbatim>\<open>EINVAL\<close> on creation is an invalid clock exactly when the clock is neither
  \<^verbatim>\<open>CLOCK_REALTIME\<close> nor \<^verbatim>\<open>CLOCK_MONOTONIC\<close>. In the source, \<^verbatim>\<open>ENODEV\<close> reaches
  \<^verbatim>\<open>raise OsError(...)\<close>, a name that is not defined, so that \<^verbatim>\<open>timerfd\<close> and
  \<^verbatim>\<open>timerfd_settime\<close> raise \<^verbatim>\<open>NameError\<close>; and the clock test is a bit mask with
  \<^verbatim>\<open>CLOCK_MONOTONIC|CLOCK_REALTIME\<close>, which is 1, so that \<^verbatim>\<open>EINVAL\<close> with
  \<^verbatim>\<open>CLOCK_REALTIME\<close> is reported as an invalid clock and \<^verbatim>\<open>EINVAL\<close> with the
  clock 3 as invalid flags.
\<close>

theorem ENODEV_raises_NameError:
  "fst (timerfd (errno_kernel ENODEV) clock_type flags w) = Inl (NameError ''OsError'')
   \<and> fst (timerfd_settime (errno_kernel ENODEV) fd timer_spec flags w')
       = Inl (NameError ''OsError'')
   \<and> fst (timerfd (errno_kernel EINVAL) CLOCK_REALTIME flags w)
       = Inl (ValueError ''clock_type is not one of CLOCK_MONOTONIC or CLOCK_REALTIME'')
   \<and> fst (timerfd (errno_kernel EINVAL) 3 flags w) = Inl (ValueError ''Invalid value in flags'')"
  by (simp add: timerfd_def timerfd_settime_def errno_kernel_def timerfd_raise_def
      timerfd_settime_raise_def errno_defs CLOCK_REALTIME_def CLOCK_MONOTONIC_def)

text \<open>
  C7. The specification asks that \<^verbatim>\<open>EINVAL\<close> from the set operation names the
  interval when the interval's nanoseconds exceed 999,999,999. The source tests the
  interval's seconds instead: an interval of \<open>{0, 1000000000}\<close> is reported as invalid
  flags or descriptor, and an interval of \<open>{1000000000, 0}\<close>, whose nanoseconds are in
  range, is reported as a nanosecond overflow of the interval.
\<close>

theorem settime_EINVAL_tests_interval_seconds:
  "fst (timerfd_settime (errno_kernel EINVAL) fd
          (RawSpec \<lparr>it_interval = \<lparr>tv_sec = 0, tv_nsec = 1000000000\<rparr>,
                    it_value = \<lparr>tv_sec = 1, tv_nsec = 0\<rparr>\<rparr>) flags w)
     = Inl (ValueError ''flags is invalid or fd not a timerfd'')
   \<and> fst (timerfd_settime (errno_kernel EINVAL) fd
          (RawSpec \<lparr>it_interval = \<lparr>tv_sec = 1000000000, tv_nsec = 0\<rparr>,
                    it_value = \<lparr>tv_sec = 1, tv_nsec = 0\<rparr>\<rparr>) flags w)
     = Inl (ValueError ''Nano seconds in it_interval is > 999,999,999'')"
  by (simp add: timerfd_settime_def errno_kernel_def timerfd_settime_raise_def EINVAL_def)

section \<open>Rounding\<close>

lemma py_round_nonneg: "0 \<le> r \<Longrightarrow> 0 \<le> py_round r"
  by (simp add: py_round_def Let_def)

lemma py_round_ge_int:
  assumes "of_int n \<le> r" shows "n \<le> py_round r"
proof -
  from assms have "n \<le> \<lfloor>r\<rfloor>" by (simp add: le_floor_iff)
  then show ?thesis by (simp add: py_round_def Let_def)
qed

lemma py_round_le_int:
  assumes "r \<le> of_int n" shows "py_round r \<le> n"
proof (cases "r = of_int n")
  case True
  then show ?thesis by (simp add: py_round_def)
next
  case False
  with assms have "r < of_int n" by simp
  then have "\<lfloor>r\<rfloor> < n" by (simp add: floor_less_iff)
  then show ?thesis by (simp add: py_round_def Let_def)
qed

lemma py_round_near:
  assumes "of_int n - 1 / 2 < r" and "r < of_int n + 1 / 2"
  shows "py_round r = n"
proof (cases "of_int n \<le> r")
  case True
  with assms(2) have "\<lfloor>r\<rfloor> = n" by (intro floor_unique) simp_all
  with assms(2) show ?thesis by (simp add: py_round_def Let_def)
next
  case False
  with assms(1) have "\<lfloor>r\<rfloor> = n - 1" by (intro floor_unique) simp_all
  with assms(1) show ?thesis by (simp add: py_round_def Let_def)
qed

lemma py_round_of_int: "py_round (of_int n) = n"
  by (simp add: py_round_def)

lemma round53_zero: "round53 0 = 0"
  by (simp add: round53_def py_round_def)

lemma round53_nonneg: "0 \<le> a \<Longrightarrow> 0 \<le> round53 a"
  by (simp add: round53_def Let_def py_round_nonneg)

lemma shift_le:
  assumes "1 \<le> (a::rat)"
  shows "2 ^ nat (bitlen \<lfloor>\<bar>a\<bar>\<rfloor> - 53) \<le> a"
proof -
  let ?n = "\<lfloor>\<bar>a\<bar>\<rfloor>"
  from assms have n: "0 < ?n" by simp
  have "(2::int) ^ nat (bitlen ?n - 53) \<le> 2 ^ nat (bitlen ?n - 1)"
    by (rule power_increasing) auto
  also have "\<dots> \<le> ?n" using bitlen_bounds [OF n] by simp
  finally have "(of_int (2 ^ nat (bitlen ?n - 53)) :: rat) \<le> of_int ?n"
    by (simp only: of_int_le_iff)
  also have "\<dots> \<le> \<bar>a\<bar>" by (rule of_int_floor_le)
  also have "\<dots> = a" using assms by simp
  finally show ?thesis by simp
qed

lemma round53_ge_one:
  assumes "1 \<le> a" shows "1 \<le> round53 a"
proof -
  let ?s = "nat (bitlen \<lfloor>\<bar>a\<bar>\<rfloor> - 53)"
  have "(2::rat) ^ ?s \<le> a" using assms by (rule shift_le)
  then have "of_int 1 \<le> a / 2 ^ ?s" by (simp add: le_divide_eq)
  then have "1 \<le> py_round (a / 2 ^ ?s)" by (rule py_round_ge_int)
  then have m: "(1::rat) \<le> of_int (py_round (a / 2 ^ ?s))" by simp
  have "(1::rat) \<le> 2 ^ ?s" by simp
  with m have "(1::rat) * 1 \<le> of_int (py_round (a / 2 ^ ?s)) * 2 ^ ?s"
    by (rule mult_mono) (use m in simp_all)
  then show ?thesis by (simp add: round53_def Let_def)
qed

lemma round53_le_grid:
  assumes a0: "0 \<le> a" and le: "a \<le> of_int m * 2 ^ t" and lt: "a < 2 ^ (t + 53)"
  shows "round53 a \<le> of_int m * 2 ^ t"
proof -
  let ?n = "\<lfloor>\<bar>a\<bar>\<rfloor>"
  let ?s = "nat (bitlen ?n - 53)"
  have "of_int ?n \<le> \<bar>a\<bar>" by (rule of_int_floor_le)
  also have "\<dots> < 2 ^ (t + 53)" using a0 lt by simp
  finally have "?n < 2 ^ (t + 53)"
    by (metis of_int_less_iff of_int_numeral of_int_power)
  then have "bitlen ?n \<le> int (t + 53)"
    unfolding bitlen_le_iff_power by (simp only: nat_int of_nat_0_le_iff simp_thms)
  then have st: "?s \<le> t" by simp
  then have "(2::rat) ^ t = 2 ^ (t - ?s) * 2 ^ ?s"
    by (simp flip: power_add)
  then have "a / 2 ^ ?s \<le> of_int m * 2 ^ (t - ?s)"
    using le by (simp add: divide_le_eq mult.assoc)
  also have "\<dots> = of_int (m * 2 ^ (t - ?s))" by simp
  finally have "py_round (a / 2 ^ ?s) \<le> m * 2 ^ (t - ?s)" by (rule py_round_le_int)
  then have "(of_int (py_round (a / 2 ^ ?s)) :: rat) \<le> of_int (m * 2 ^ (t - ?s))"
    by (simp only: of_int_le_iff)
  then have "(of_int (py_round (a / 2 ^ ?s)) :: rat) * 2 ^ ?s \<le> of_int (m * 2 ^ (t - ?s)) * 2 ^ ?s"
    by (rule mult_right_mono) simp
  also have "\<dots> = of_int m * (2 ^ (t - ?s) * 2 ^ ?s)" by simp
  also have "\<dots> = of_int m * 2 ^ t" using st by (simp flip: power_add)
  finally show ?thesis by (simp add: round53_def Let_def)
qed

lemma round53_exact:
  assumes "\<bar>m\<bar> < 2 ^ 53"
  shows "round53 (of_int m * 2 ^ t) = of_int m * 2 ^ t"
proof (cases "m = 0")
  case True
  then show ?thesis by (simp add: round53_zero)
next
  case False
  then have pos: "0 < \<bar>m\<bar>" by simp
  have "\<bar>of_int m * (2::rat) ^ t\<bar> = of_int (\<bar>m\<bar> * 2 ^ t)"
    by (simp add: abs_mult)
  then have fl: "\<lfloor>\<bar>of_int m * (2::rat) ^ t\<bar>\<rfloor> = \<bar>m\<bar> * 2 ^ t"
    by (simp only: floor_of_int)
  have "bitlen \<bar>m\<bar> \<le> 53"
    unfolding bitlen_le_iff_power using assms by simp
  then have "bitlen (\<bar>m\<bar> * 2 ^ t) - 53 \<le> int t"
    using pos by simp
  then obtain s where s: "s = nat (bitlen (\<bar>m\<bar> * 2 ^ t) - 53)" and st: "s \<le> t"
    by simp
  have "(2::rat) ^ t = 2 ^ (t - s) * 2 ^ s"
    using st by (simp flip: power_add)
  then have "of_int m * (2::rat) ^ t / 2 ^ s = of_int (m * 2 ^ (t - s))"
    by simp
  then have "py_round (of_int m * 2 ^ t / 2 ^ s) = m * 2 ^ (t - s)"
    by (simp only: py_round_of_int)
  then have "round53 (of_int m * 2 ^ t) = of_int (m * 2 ^ (t - s)) * 2 ^ s"
    unfolding round53_def fl s by (simp only: Let_def)
  also have "\<dots> = of_int m * (2 ^ (t - s) * 2 ^ s)" by simp
  also have "\<dots> = of_int m * 2 ^ t" using st by (simp flip: power_add)
  finally show ?thesis .
qed

lemma fl64_zero: "fl64 0 = 0"
  by (simp add: fl64_def round53_zero)

lemma fl64_nonneg: "0 \<le> q \<Longrightarrow> 0 \<le> fl64 q"
  by (simp add: fl64_def round53_nonneg)

lemma fl64_ge_tiny:
  assumes "1 / 2 ^ 1074 \<le> q" shows "1 / 2 ^ 1074 \<le> fl64 q"
proof -
  from assms have "1 \<le> q * 2 ^ 1074"
    by (simp only: divide_le_eq zero_less_power zero_less_numeral if_True)
  then have "1 \<le> round53 (q * 2 ^ 1074)" by (rule round53_ge_one)
  then show ?thesis unfolding fl64_def by (rule divide_right_mono) simp
qed

lemma fl64_le_1e9:
  assumes "0 \<le> q" "q \<le> 1000000000" shows "fl64 q \<le> 1000000000"
proof -
  have g: "(1000000000::rat) * 2 ^ 1074 = of_int 1953125 * 2 ^ 1083"
    by simp
  have "q * 2 ^ 1074 \<le> 1000000000 * 2 ^ 1074" using assms(2) by (rule mult_right_mono) simp
  then have le: "q * 2 ^ 1074 \<le> of_int 1953125 * 2 ^ 1083" by (simp only: g)
  have "of_int 1953125 * 2 ^ 1083 < (2::rat) ^ (1083 + 53)" by simp
  with le have lt: "q * 2 ^ 1074 < 2 ^ (1083 + 53)" by (rule le_less_trans)
  have "0 \<le> q * 2 ^ 1074" using assms(1) by simp
  then have "round53 (q * 2 ^ 1074) \<le> of_int 1953125 * 2 ^ 1083"
    using le lt by (rule round53_le_grid)
  then have "round53 (q * 2 ^ 1074) \<le> 1000000000 * 2 ^ 1074" by (simp only: g)
  then show ?thesis unfolding fl64_def
    by (simp only: divide_le_eq zero_less_power zero_less_numeral if_True)
qed

lemma fl64_exact:
  assumes "\<bar>m\<bar> < 2 ^ 53" and "q * 2 ^ 1074 = of_int m * 2 ^ t"
  shows "fl64 q = q"
proof -
  have "round53 (q * 2 ^ 1074) = q * 2 ^ 1074"
    unfolding assms(2) using assms(1) by (rule round53_exact)
  then show ?thesis by (simp add: fl64_def)
qed

lemma split_val_example:
  "split_val (PyFloat (4294967295 / 4294967296)) = (PyInt 0, PyInt 1000000000)"
proof -
  have "fl64 (8388607998046875 / 8388608) = 8388607998046875 / 8388608"
    by (rule fl64_exact [where m = 8388607998046875 and t = 1051]) simp_all
  then have "py_round (fl64 (8388607998046875 / 8388608)) = py_round (8388607998046875 / 8388608)"
    by (simp only:)
  also have "\<dots> = 1000000000"
    by (rule py_round_near) simp_all
  finally have nano: "py_round (fl64 (8388607998046875 / 8388608)) = 1000000000" .
  have "\<lfloor>4294967295 / 4294967296 :: rat\<rfloor> = 0"
    by (rule floor_unique) simp_all
  with nano show ?thesis
    by (simp add: split_val_def modf_def trunc_def)
qed

section \<open>The float properties of TimerSpec\<close>

lemma split_val_float:
  assumes "0 \<le> q"
  shows "\<exists>n. split_val (PyFloat q) = (PyInt \<lfloor>q\<rfloor>, PyInt n) \<and> 0 \<le> n \<and> n \<le> 1000000000"
proof -
  let ?x = "q - of_int \<lfloor>q\<rfloor>"
  have x0: "0 \<le> ?x" by simp
  have "?x < 1" by linarith
  then have x1: "1000000000 * ?x \<le> 1000000000" by simp
  from x0 have p0: "0 \<le> 1000000000 * ?x" by simp
  from p0 have f0: "0 \<le> fl64 (1000000000 * ?x)" by (rule fl64_nonneg)
  from p0 x1 have "fl64 (1000000000 * ?x) \<le> of_int 1000000000"
    by (simp only: fl64_le_1e9 of_int_numeral)
  then have "py_round (fl64 (1000000000 * ?x)) \<le> 1000000000" by (rule py_round_le_int)
  moreover from f0 have "0 \<le> py_round (fl64 (1000000000 * ?x))" by (rule py_round_nonneg)
  moreover have "split_val (PyFloat q)
      = (PyInt \<lfloor>q\<rfloor>, PyInt (py_round (fl64 (1000000000 * ?x))))"
    using assms by (simp add: split_val_def modf_def trunc_def)
  ultimately show ?thesis by blast
qed

text \<open>
  C3, as the source has it. The specification asks that the nanoseconds made from a
  non-negative float never reach 1,000,000,000, a carry going to the seconds. The
  setters have no carry. The float \<open>1 - 2\<^sup>-\<^sup>3\<^sup>2\<close> (a number of the binary64 format: it
  rounds to itself) has the fractional part \<open>1 - 2\<^sup>-\<^sup>3\<^sup>2\<close>, whose product with
  \<open>10\<^sup>9\<close> is exact and rounds to the integer \<open>10\<^sup>9\<close>: the property \<^verbatim>\<open>one_off\<close> stores
  0 seconds and 1,000,000,000 nanoseconds.
\<close>

theorem one_off_setter_reaches_1e9:
  "one_off_setter \<lparr>p_timerspec = new_itimerspec, inst_dict = []\<rparr>
       (PyFloat (4294967295 / 4294967296))
     = Inr \<lparr>p_timerspec = \<lparr>it_interval = zero_timespec,
                             it_value = \<lparr>tv_sec = 0, tv_nsec = 1000000000\<rparr>\<rparr>,
            inst_dict = []\<rparr>
   \<and> fl64 (4294967295 / 4294967296) = 4294967295 / 4294967296"
proof -
  have "fl64 (4294967295 / 4294967296) = 4294967295 / 4294967296"
    by (rule fl64_exact [where m = 4294967295 and t = 1042]) simp_all
  then show ?thesis
    by (simp add: one_off_setter_def split_val_example one_off_seconds_setter_def
        one_off_nano_seconds_setter_def long_fits_def new_itimerspec_def zero_timespec_def)
qed

text \<open>
  C3, amended. For every non-negative float below \<open>2\<^sup>6\<^sup>3\<close>, assigning it to
  \<^verbatim>\<open>one_off\<close> or to \<^verbatim>\<open>reoccuring\<close> succeeds and stores its integral part, which is
  not negative, as the seconds, and nanoseconds between 0 and 1,000,000,000, both
  included: there is no carry into the seconds.
\<close>

theorem float_setter_range:
  assumes "0 \<le> q" and "q < 2 ^ 63"
  shows "(\<exists>ts'. one_off_setter ts (PyFloat q) = Inr ts'
            \<and> one_off_seconds ts' = \<lfloor>q\<rfloor> \<and> 0 \<le> one_off_seconds ts'
            \<and> 0 \<le> one_off_nano_seconds ts' \<and> one_off_nano_seconds ts' \<le> 1000000000)
       \<and> (\<exists>ts'. reoccuring_setter ts (PyFloat q) = Inr ts'
            \<and> reoccuring_seconds ts' = \<lfloor>q\<rfloor> \<and> 0 \<le> reoccuring_seconds ts'
            \<and> 0 \<le> reoccuring_nano_seconds ts' \<and> reoccuring_nano_seconds ts' \<le> 1000000000)"
proof -
  from assms(1) obtain n where sv: "split_val (PyFloat q) = (PyInt \<lfloor>q\<rfloor>, PyInt n)"
    and n: "0 \<le> n" "n \<le> 1000000000"
    using split_val_float by blast
  from assms have s: "0 \<le> \<lfloor>q\<rfloor>" "\<lfloor>q\<rfloor> < 2 ^ 63"
    by (simp_all add: floor_less_iff)
  from s have fs: "long_fits \<lfloor>q\<rfloor>" by (simp add: long_fits_def)
  from n have fn: "long_fits n" by (simp add: long_fits_def)
  show ?thesis
    using s n fs fn
    by (simp add: one_off_setter_def reoccuring_setter_def sv
        one_off_seconds_setter_def one_off_nano_seconds_setter_def
        reoccuring_seconds_setter_def reoccuring_nano_seconds_setter_def
        one_off_seconds_def one_off_nano_seconds_def
        reoccuring_seconds_def reoccuring_nano_seconds_def)
qed

theorem float_setter_range_witness:
  "(0::rat) \<le> 3 / 2 \<and> (3 / 2 :: rat) < 2 ^ 63
   \<and> (\<exists>ts'. one_off_setter \<lparr>p_timerspec = new_itimerspec, inst_dict = []\<rparr> (PyFloat (3 / 2))
              = Inr ts'
            \<and> one_off_seconds ts' = \<lfloor>3 / 2 :: rat\<rfloor> \<and> 0 \<le> one_off_seconds ts'
            \<and> 0 \<le> one_off_nano_seconds ts' \<and> one_off_nano_seconds ts' \<le> 1000000000)"
proof -
  have h: "(0::rat) \<le> 3 / 2" "(3 / 2 :: rat) < 2 ^ 63" by simp_all
  from float_setter_range [OF h, of "\<lparr>p_timerspec = new_itimerspec, inst_dict = []\<rparr>"] h
  show ?thesis by blast
qed

section \<open>The armed predicate\<close>

lemma one_off_zero_iff:
  assumes s: "0 \<le> one_off_seconds ts" and n: "0 \<le> one_off_nano_seconds ts"
  shows "one_off ts = 0 \<longleftrightarrow> one_off_seconds ts = 0 \<and> one_off_nano_seconds ts = 0"
proof
  assume "one_off_seconds ts = 0 \<and> one_off_nano_seconds ts = 0"
  then show "one_off ts = 0" by (simp add: one_off_def fl64_zero)
next
  assume z: "one_off ts = 0"
  let ?a = "fl64 (of_int (one_off_seconds ts))"
  let ?b = "fl64 (of_int (one_off_nano_seconds ts) / 1000000000)"
  have a0: "0 \<le> ?a" using s by (intro fl64_nonneg) simp
  have b0: "0 \<le> ?b" using n by (intro fl64_nonneg) simp
  have tiny: "(1::rat) / 2 ^ 1074 \<le> 1 / 1000000000" by simp
  show "one_off_seconds ts = 0 \<and> one_off_nano_seconds ts = 0"
  proof (rule ccontr)
    assume "\<not> ?thesis"
    with s n have "1 \<le> one_off_seconds ts \<or> 1 \<le> one_off_nano_seconds ts" by linarith
    then have "1 / 2 ^ 1074 \<le> ?a + ?b"
    proof
      assume "1 \<le> one_off_seconds ts"
      then have "(1::rat) \<le> of_int (one_off_seconds ts)" by simp
      then have "(1::rat) / 2 ^ 1074 \<le> of_int (one_off_seconds ts)"
        by (rule order_trans [rotated]) simp
      then have "1 / 2 ^ 1074 \<le> ?a" by (rule fl64_ge_tiny)
      with b0 show ?thesis by linarith
    next
      assume "1 \<le> one_off_nano_seconds ts"
      then have "(1::rat) \<le> of_int (one_off_nano_seconds ts)" by simp
      then have "(1::rat) / 1000000000 \<le> of_int (one_off_nano_seconds ts) / 1000000000"
        by (rule divide_right_mono) simp
      with tiny have "(1::rat) / 2 ^ 1074 \<le> of_int (one_off_nano_seconds ts) / 1000000000"
        by (rule order_trans)
      then have "1 / 2 ^ 1074 \<le> ?b" by (rule fl64_ge_tiny)
      with a0 show ?thesis by linarith
    qed
    then have "1 / 2 ^ 1074 \<le> fl64 (?a + ?b)" by (rule fl64_ge_tiny)
    moreover have "(0::rat) < 1 / 2 ^ 1074" by simp
    ultimately have "0 < one_off ts" unfolding one_off_def by (rule less_le_trans [rotated])
    with z show False by simp
  qed
qed

text \<open>
  C2. A \<^verbatim>\<open>TimerSpec\<close> whose initial expiration has no negative component (the
  specification's time values have none) is enabled if and only if its initial
  expiration differs from \<open>{0, 0}\<close>, whatever its interval. The source decides it on
  the float \<^verbatim>\<open>one_off\<close>, the rounded sum of the seconds and of the nanoseconds
  divided by \<open>10\<^sup>9\<close>, which is zero only when both are.
\<close>

theorem enabled_iff_initial_nonzero:
  assumes "0 \<le> tv_sec (it_value (p_timerspec ts))"
    and "0 \<le> tv_nsec (it_value (p_timerspec ts))"
  shows "enabled ts \<longleftrightarrow> it_value (p_timerspec ts) \<noteq> zero_timespec"
proof -
  have "one_off ts = 0 \<longleftrightarrow> one_off_seconds ts = 0 \<and> one_off_nano_seconds ts = 0"
    using assms
    by (intro one_off_zero_iff) (simp_all add: one_off_seconds_def one_off_nano_seconds_def)
  also have "\<dots> \<longleftrightarrow> it_value (p_timerspec ts) = zero_timespec"
    by (cases "it_value (p_timerspec ts)")
      (simp add: one_off_seconds_def one_off_nano_seconds_def zero_timespec_def)
  finally show ?thesis by (simp add: enabled_def TimerSpec_bool_def)
qed

theorem enabled_iff_initial_nonzero_witness:
  "enabled \<lparr>p_timerspec = \<lparr>it_interval = zero_timespec,
                            it_value = \<lparr>tv_sec = 0, tv_nsec = 1\<rparr>\<rparr>, inst_dict = []\<rparr>
   \<and> enabled \<lparr>p_timerspec = \<lparr>it_interval = zero_timespec,
                              it_value = \<lparr>tv_sec = 1, tv_nsec = 0\<rparr>\<rparr>, inst_dict = []\<rparr>
   \<and> \<not> enabled \<lparr>p_timerspec = \<lparr>it_interval = \<lparr>tv_sec = 5, tv_nsec = 0\<rparr>,
                                it_value = \<lparr>tv_sec = 0, tv_nsec = 0\<rparr>\<rparr>, inst_dict = []\<rparr>"
  using
    enabled_iff_initial_nonzero [of "\<lparr>p_timerspec = \<lparr>it_interval = zero_timespec,
      it_value = \<lparr>tv_sec = 0, tv_nsec = 1\<rparr>\<rparr>, inst_dict = []\<rparr>"]
    enabled_iff_initial_nonzero [of "\<lparr>p_timerspec = \<lparr>it_interval = zero_timespec,
      it_value = \<lparr>tv_sec = 1, tv_nsec = 0\<rparr>\<rparr>, inst_dict = []\<rparr>"]
    enabled_iff_initial_nonzero [of "\<lparr>p_timerspec = \<lparr>it_interval = \<lparr>tv_sec = 5, tv_nsec = 0\<rparr>,
      it_value = \<lparr>tv_sec = 0, tv_nsec = 0\<rparr>\<rparr>, inst_dict = []\<rparr>"]
  by (simp add: zero_timespec_def)

section \<open>Disabling a timer\<close>

lemma zero_it_value:
  "(it_value s)\<lparr>tv_sec := 0, tv_nsec := 0\<rparr> = zero_timespec"
  by (cases "it_value s") (simp add: zero_timespec_def)

lemma disable_eq:
  "disable ts = Inr (ts\<lparr>p_timerspec := (p_timerspec ts)\<lparr>it_value := zero_timespec\<rparr>\<rparr>)"
proof -
  have "split_val (PyFloat 0) = (PyInt 0, PyInt 0)"
    by (simp add: split_val_def modf_def trunc_def fl64_zero py_round_of_int [of 0, simplified])
  then show ?thesis
    by (simp add: disable_def one_off_setter_def one_off_seconds_setter_def
        one_off_nano_seconds_setter_def long_fits_def zero_it_value)
qed

lemma enabled_zero_value:
  "it_value (p_timerspec ts) = zero_timespec \<Longrightarrow> \<not> enabled ts"
  by (simp add: enabled_def TimerSpec_bool_def one_off_def one_off_seconds_def
      one_off_nano_seconds_def zero_timespec_def fl64_zero)

lemma map_of_update_same: "map_of (AList.update k v al) k = Some v"
  by (simp add: update_conv')

text \<open>
  C8. On the reference kernel, for a handle whose descriptor is an open timer:
  \<^verbatim>\<open>disable()\<close> reads the current setting with \<^verbatim>\<open>timerfd_gettime\<close>, and what it then
  passes to \<^verbatim>\<open>timerfd_settime\<close>, with no flag, is the setting read with the initial
  expiration (seconds and nanoseconds) set to zero and the interval as read. It
  returns without error; afterwards \<^verbatim>\<open>enabled\<close> is false and \<^verbatim>\<open>get_current()\<close>
  returns, without error, a zero initial expiration.
\<close>

theorem disable_zeroes_initial_only:
  assumes op: "map_of k (h_fd self) = Some t"
    and iv: "valid_timespec (it_interval (kt_spec t))"
  shows "\<exists>w'. Timerfd_disable ref_kernel self (k, cs) = (Inr (), w')
           \<and> snd w' = cs @ [Call_timerfd_gettime (h_fd self),
                 Call_timerfd_settime (h_fd self) 0 ((kt_spec t)\<lparr>it_value := zero_timespec\<rparr>)]
           \<and> fst (Timerfd_enabled ref_kernel self w') = Inr False
           \<and> fst (Timerfd_get_current ref_kernel self w')
               = Inr \<lparr>p_timerspec = (kt_spec t)\<lparr>it_value := zero_timespec\<rparr>, inst_dict = []\<rparr>"
proof -
  let ?fd = "h_fd self"
  let ?new = "(kt_spec t)\<lparr>it_value := zero_timespec\<rparr>"
  let ?k' = "AList.update ?fd (t\<lparr>kt_spec := ?new, kt_expirations := 0\<rparr>) k"
  let ?cs' = "cs @ [Call_timerfd_gettime ?fd, Call_timerfd_settime ?fd 0 ?new]"
  have g: "Timerfd_get_current ref_kernel self (k, cs)
      = (Inr \<lparr>p_timerspec = kt_spec t, inst_dict = []\<rparr>, (k, cs @ [Call_timerfd_gettime ?fd]))"
    using op by (simp add: Timerfd_get_current_def timerfd_gettime_def ref_kernel_def
        ref_gettime_def TimerSpec_init_clone)
  have vz: "valid_timespec zero_timespec"
    by (simp add: valid_timespec_def zero_timespec_def)
  have u: "Timerfd_update ref_kernel self \<lparr>p_timerspec = ?new, inst_dict = []\<rparr> False
             (k, cs @ [Call_timerfd_gettime ?fd])
      = (Inr \<lparr>p_timerspec = kt_spec t, inst_dict = []\<rparr>, (?k', ?cs'))"
    using op iv vz by (simp add: Timerfd_update_def timerfd_settime_def ref_kernel_def
        ref_settime_def TimerSpec_init_clone timerspec_of_def Let_def)
  have d: "Timerfd_disable ref_kernel self (k, cs) = (Inr (), (?k', ?cs'))"
    by (simp add: Timerfd_disable_def g disable_eq u)
  have g': "Timerfd_get_current ref_kernel self (?k', ?cs')
      = (Inr \<lparr>p_timerspec = ?new, inst_dict = []\<rparr>, (?k', ?cs' @ [Call_timerfd_gettime ?fd]))"
    by (simp add: Timerfd_get_current_def timerfd_gettime_def ref_kernel_def
        ref_gettime_def TimerSpec_init_clone map_of_update_same)
  have e: "fst (Timerfd_enabled ref_kernel self (?k', ?cs')) = Inr False"
    by (simp add: Timerfd_enabled_def g' enabled_zero_value)
  from d e g' show ?thesis by simp
qed

theorem disable_zeroes_initial_only_witness:
  "map_of example_armed_kstate (h_fd example_handle) = Some example_timer
   \<and> valid_timespec (it_interval (kt_spec example_timer))
   \<and> (\<exists>w'. Timerfd_disable ref_kernel example_handle (example_armed_kstate, []) = (Inr (), w')
           \<and> snd w' = [Call_timerfd_gettime 3,
                 Call_timerfd_settime 3 0
                   \<lparr>it_interval = \<lparr>tv_sec = 1, tv_nsec = 0\<rparr>, it_value = zero_timespec\<rparr>]
           \<and> fst (Timerfd_enabled ref_kernel example_handle w') = Inr False)"
proof -
  have h: "map_of example_armed_kstate (h_fd example_handle) = Some example_timer"
    "valid_timespec (it_interval (kt_spec example_timer))"
    by (simp_all add: example_armed_kstate_def example_handle_def example_timer_def
        valid_timespec_def)
  from disable_zeroes_initial_only [OF h, of "[]"] h show ?thesis
    by (auto simp add: example_handle_def example_timer_def)
qed

section \<open>Waiting for expirations\<close>

lemma le_decode_sum:
  "le_decode bs = (\<Sum>i<length bs. unat (bs ! i) * 256 ^ i)"
  by (induction bs)
    (simp_all del: sum.lessThan_Suc add: sum.lessThan_Suc_shift sum_distrib_left mult_ac)

lemma le_decode_less: "le_decode bs < 256 ^ length bs"
proof (induction bs)
  case Nil
  show ?case by simp
next
  case (Cons b bs)
  have "unat b < 256" using unsigned_less [of b, where 'a = nat] by simp
  with Cons show ?case by simp
qed

lemma length_le_encode: "length (le_encode n v) = n"
  by (induction n arbitrary: v) simp_all

lemma le_decode_encode: "le_decode (le_encode n v) = v mod 256 ^ n"
proof (induction n arbitrary: v)
  case 0
  show ?case by simp
next
  case (Suc n)
  have "unat (of_nat (v mod 256) :: 8 word) = v mod 256"
    by (simp add: unat_of_nat)
  with Suc show ?case
    by (simp add: mod_mult2_eq)
qed

lemma le_decode_encode_word:
  "le_decode (le_encode 8 (unat (c :: 64 word))) = unat c"
proof -
  have "unat c < 256 ^ 8" using unsigned_less [of c, where 'a = nat] by simp
  then show ?thesis by (simp only: le_decode_encode mod_less)
qed

lemma Timerfd_wait_decodes:
  assumes "k_select K (h_fd self) k = Some (Inr u, k1)"
    and "k_read K (h_fd self) 8 k1 = Some (Inr bs, k2)"
    and "length bs = 8"
  shows "Timerfd_wait K self (k, cs)
     = Some (Inr (le_decode bs), (k2, cs @ [Call_select (h_fd self), Call_read (h_fd self) 8]))"
  using assms by (simp add: Timerfd_wait_def)

lemma ref_wait_pending:
  assumes op: "map_of k (h_fd self) = Some t" and c: "kt_expirations t \<noteq> 0"
  shows "Timerfd_wait ref_kernel self (k, cs)
     = Some (Inr (unat (kt_expirations t)),
             (AList.update (h_fd self) (t\<lparr>kt_expirations := 0\<rparr>) k,
              cs @ [Call_select (h_fd self), Call_read (h_fd self) 8]))"
proof -
  have s: "k_select ref_kernel (h_fd self) k = Some (Inr (), k)"
    using op c by (simp add: ref_kernel_def ref_select_def)
  have r: "k_read ref_kernel (h_fd self) 8 k
      = Some (Inr (le_encode 8 (unat (kt_expirations t))),
              AList.update (h_fd self) (t\<lparr>kt_expirations := 0\<rparr>) k)"
    using op c by (simp add: ref_kernel_def ref_read_def)
  have l: "length (le_encode 8 (unat (kt_expirations t))) = 8"
    by (rule length_le_encode)
  show ?thesis
    by (simp only: Timerfd_wait_decodes [OF s r l] le_decode_encode_word)
qed

lemma expire_expirations: "kt_expirations (expire t) = 1"
  by (simp add: expire_def)

lemma ref_wait_armed:
  assumes op: "map_of k (h_fd self) = Some t" and c: "kt_expirations t = 0"
    and a: "it_value (kt_spec t) \<noteq> zero_timespec"
  shows "Timerfd_wait ref_kernel self (k, cs)
     = Some (Inr 1,
             (AList.update (h_fd self) ((expire t)\<lparr>kt_expirations := 0\<rparr>)
                (AList.update (h_fd self) (expire t) k),
              cs @ [Call_select (h_fd self), Call_read (h_fd self) 8]))"
proof -
  let ?k1 = "AList.update (h_fd self) (expire t) k"
  have op1: "map_of ?k1 (h_fd self) = Some (expire t)" by (rule map_of_update_same)
  have c1: "kt_expirations (expire t) \<noteq> 0" by (simp add: expire_def)
  have s: "k_select ref_kernel (h_fd self) k = Some (Inr (), ?k1)"
    using op c a by (simp add: ref_kernel_def ref_select_def)
  have r: "k_read ref_kernel (h_fd self) 8 ?k1
      = Some (Inr (le_encode 8 (unat (kt_expirations (expire t)))),
              AList.update (h_fd self) ((expire t)\<lparr>kt_expirations := 0\<rparr>) ?k1)"
    using op1 c1 by (simp add: ref_kernel_def ref_read_def)
  have l: "length (le_encode 8 (unat (kt_expirations (expire t)))) = 8"
    by (rule length_le_encode)
  show ?thesis
    by (simp only: Timerfd_wait_decodes [OF s r l] le_decode_encode_word expire_expirations)
      simp
qed

lemma ref_wait_blocks:
  assumes op: "map_of k (h_fd self) = Some t" and c: "kt_expirations t = 0"
    and a: "it_value (kt_spec t) = zero_timespec"
  shows "Timerfd_wait ref_kernel self (k, cs) = None"
  using assms by (simp add: Timerfd_wait_def ref_kernel_def ref_select_def)

lemma ref_wait_closed:
  assumes "map_of k (h_fd self) = None"
  shows "Timerfd_wait ref_kernel self (k, cs)
     = Some (Inl (OSErrno EBADF), (k, cs @ [Call_select (h_fd self)]))"
  using assms by (simp add: Timerfd_wait_def ref_kernel_def ref_select_def)

text \<open>
  C9. \<^verbatim>\<open>wait()\<close> calls \<^verbatim>\<open>select\<close> on the descriptor and then reads 8 bytes. On every
  kernel, when \<^verbatim>\<open>select\<close> returns and the read yields 8 bytes, \<^verbatim>\<open>wait()\<close> returns
  the unsigned 64-bit number they spell with the least significant byte first. On the
  reference kernel and an open timer, \<^verbatim>\<open>wait()\<close> never returns while the timer is
  disarmed and has no unread expiration; otherwise it returns the number of
  expirations since the last read (one, when it had to wait for the first), and the
  counter is zero afterwards. Whatever the state, a \<^verbatim>\<open>wait()\<close> that returns a number
  does not return 0.
\<close>

theorem wait_returns_expirations:
  "(\<forall>k1 k2 u bs. k_select K (h_fd self) k = Some (Inr u, k1)
        \<and> k_read K (h_fd self) 8 k1 = Some (Inr bs, k2) \<and> length bs = 8
      \<longrightarrow> Timerfd_wait K self (k, cs)
            = Some (Inr (\<Sum>i<8. unat (bs ! i) * 256 ^ i),
                    (k2, cs @ [Call_select (h_fd self), Call_read (h_fd self) 8]))
          \<and> (\<Sum>i<8. unat (bs ! i) * 256 ^ i) < 2 ^ 64)
   \<and> (\<forall>t. map_of k' (h_fd self) = Some t \<longrightarrow>
        (if kt_expirations t = 0 \<and> it_value (kt_spec t) = zero_timespec
         then Timerfd_wait ref_kernel self (k', cs) = None
         else \<exists>k''. Timerfd_wait ref_kernel self (k', cs)
                 = Some (Inr (if kt_expirations t = 0 then 1 else unat (kt_expirations t)),
                         (k'', cs @ [Call_select (h_fd self), Call_read (h_fd self) 8]))
               \<and> (\<exists>t'. map_of k'' (h_fd self) = Some t' \<and> kt_expirations t' = 0)))
   \<and> (\<forall>n w'. Timerfd_wait ref_kernel self (k', cs) = Some (Inr n, w') \<longrightarrow> 0 < n)"
proof (intro conjI allI impI)
  fix k1 k2 u bs
  assume a: "k_select K (h_fd self) k = Some (Inr u, k1)
        \<and> k_read K (h_fd self) 8 k1 = Some (Inr bs, k2) \<and> length bs = 8"
  then have a1: "k_select K (h_fd self) k = Some (Inr u, k1)"
    and a2: "k_read K (h_fd self) 8 k1 = Some (Inr bs, k2)" and a3: "length bs = 8"
    by simp_all
  from a1 a2 a3 have "Timerfd_wait K self (k, cs)
     = Some (Inr (le_decode bs), (k2, cs @ [Call_select (h_fd self), Call_read (h_fd self) 8]))"
    by (rule Timerfd_wait_decodes)
  moreover have "le_decode bs = (\<Sum>i<8. unat (bs ! i) * 256 ^ i)"
    using a le_decode_sum [of bs] by simp
  ultimately show "Timerfd_wait K self (k, cs)
            = Some (Inr (\<Sum>i<8. unat (bs ! i) * 256 ^ i),
                    (k2, cs @ [Call_select (h_fd self), Call_read (h_fd self) 8]))"
    by simp
  have "le_decode bs < 256 ^ length bs" by (rule le_decode_less)
  with a \<open>le_decode bs = (\<Sum>i<8. unat (bs ! i) * 256 ^ i)\<close>
  show "(\<Sum>i<8. unat (bs ! i) * 256 ^ i) < 2 ^ 64" by simp
next
  fix t
  assume op: "map_of k' (h_fd self) = Some t"
  show "if kt_expirations t = 0 \<and> it_value (kt_spec t) = zero_timespec
         then Timerfd_wait ref_kernel self (k', cs) = None
         else \<exists>k''. Timerfd_wait ref_kernel self (k', cs)
                 = Some (Inr (if kt_expirations t = 0 then 1 else unat (kt_expirations t)),
                         (k'', cs @ [Call_select (h_fd self), Call_read (h_fd self) 8]))
               \<and> (\<exists>t'. map_of k'' (h_fd self) = Some t' \<and> kt_expirations t' = 0)"
  proof (cases "kt_expirations t = 0")
    case False
    with ref_wait_pending [OF op False, of cs] show ?thesis
      by (simp add: map_of_update_same)
  next
    case True
    show ?thesis
    proof (cases "it_value (kt_spec t) = zero_timespec")
      case True
      with ref_wait_blocks [OF op \<open>kt_expirations t = 0\<close> True, of cs] \<open>kt_expirations t = 0\<close>
      show ?thesis by simp
    next
      case False
      with ref_wait_armed [OF op True False, of cs] True show ?thesis
        by (simp add: map_of_update_same)
    qed
  qed
next
  fix n w'
  assume r: "Timerfd_wait ref_kernel self (k', cs) = Some (Inr n, w')"
  show "0 < n"
  proof (cases "map_of k' (h_fd self)")
    case None
    with r ref_wait_closed [OF None, of cs] show ?thesis by simp
  next
    case (Some t)
    show ?thesis
    proof (cases "kt_expirations t = 0")
      case False
      then have "0 < unat (kt_expirations t)" by (simp add: unat_gt_0)
      with r ref_wait_pending [OF Some False, of cs] show ?thesis by simp
    next
      case True
      show ?thesis
      proof (cases "it_value (kt_spec t) = zero_timespec")
        case True
        with r ref_wait_blocks [OF Some \<open>kt_expirations t = 0\<close> True, of cs] show ?thesis by simp
      next
        case False
        with r ref_wait_armed [OF Some True False, of cs] show ?thesis by simp
      qed
    qed
  qed
qed

lemma le_encode_two: "le_encode 8 2 = [2, 0, 0, 0, 0, 0, 0, 0]"
proof -
  have "le_encode (Suc (Suc (Suc (Suc (Suc (Suc (Suc (Suc 0)))))))) 2 = [2, 0, 0, 0, 0, 0, 0, 0]"
    by simp
  moreover have "(8::nat) = Suc (Suc (Suc (Suc (Suc (Suc (Suc (Suc 0)))))))" by simp
  ultimately show ?thesis by (simp only:)
qed


lemma le_decode_two: "le_decode [2, 0, 0, 0, 0, 0, 0, 0] = 2"
  by simp


lemma le_sum_two: "(\<Sum>i<8. unat ([2, 0, 0, 0, 0, 0, 0, 0 :: 8 word] ! i) * 256 ^ i) = (2::nat)"
proof -
  have l: "length [2, 0, 0, 0, 0, 0, 0, 0 :: 8 word] = 8" by simp
  have "le_decode [2, 0, 0, 0, 0, 0, 0, 0]
      = (\<Sum>i<length [2, 0, 0, 0, 0, 0, 0, 0 :: 8 word]. unat ([2, 0, 0, 0, 0, 0, 0, 0 :: 8 word] ! i) * 256 ^ i)"
    by (rule le_decode_sum)
  then have "le_decode [2, 0, 0, 0, 0, 0, 0, 0]
      = (\<Sum>i<8. unat ([2, 0, 0, 0, 0, 0, 0, 0 :: 8 word] ! i) * 256 ^ i)"
    unfolding l .
  with le_decode_two show ?thesis by (simp only:)
qed

lemma example_open: "map_of example_armed_kstate (h_fd example_handle) = Some example_timer"
  by (simp add: example_armed_kstate_def example_handle_def)

lemma example_select: "k_select ref_kernel (h_fd example_handle) example_armed_kstate
       = Some (Inr (), example_armed_kstate)"
  by (simp add: ref_kernel_def ref_select_def example_open) (simp add: example_timer_def)

lemma example_read: "k_read ref_kernel (h_fd example_handle) 8 example_armed_kstate
       = Some (Inr [2, 0, 0, 0, 0, 0, 0, 0], [(3, example_timer\<lparr>kt_expirations := 0\<rparr>)])"
  by (simp add: ref_kernel_def ref_read_def example_open)
    (simp add: example_timer_def example_armed_kstate_def example_handle_def le_encode_two)

theorem wait_returns_expirations_witness:
  "map_of example_armed_kstate (h_fd example_handle) = Some example_timer
   \<and> k_select ref_kernel (h_fd example_handle) example_armed_kstate
       = Some (Inr (), example_armed_kstate)
   \<and> k_read ref_kernel (h_fd example_handle) 8 example_armed_kstate
       = Some (Inr [2, 0, 0, 0, 0, 0, 0, 0], [(3, example_timer\<lparr>kt_expirations := 0\<rparr>)])
   \<and> Timerfd_wait ref_kernel example_handle (example_armed_kstate, [])
       = Some (Inr 2, ([(3, example_timer\<lparr>kt_expirations := 0\<rparr>)],
                       [Call_select 3, Call_read 3 8]))"
proof -
  have l: "length [2, 0, 0, 0, 0, 0, 0, 0 :: 8 word] = 8" by simp
  note t = wait_returns_expirations
    [of ref_kernel example_handle example_armed_kstate "[]" example_armed_kstate]
  from t have "\<forall>k1 k2 u bs. k_select ref_kernel (h_fd example_handle) example_armed_kstate
          = Some (Inr u, k1)
        \<and> k_read ref_kernel (h_fd example_handle) 8 k1 = Some (Inr bs, k2) \<and> length bs = 8
      \<longrightarrow> Timerfd_wait ref_kernel example_handle (example_armed_kstate, [])
            = Some (Inr (\<Sum>i<8. unat (bs ! i) * 256 ^ i),
                    (k2, [] @ [Call_select (h_fd example_handle),
                               Call_read (h_fd example_handle) 8]))
          \<and> (\<Sum>i<8. unat (bs ! i) * 256 ^ i) < 2 ^ 64"
    by (rule conjunct1)
  from this [rule_format, OF conjI [OF example_select conjI [OF example_read l]]]
  have "Timerfd_wait ref_kernel example_handle (example_armed_kstate, [])
      = Some (Inr (\<Sum>i<8. unat ([2, 0, 0, 0, 0, 0, 0, 0 :: 8 word] ! i) * 256 ^ i),
              ([(3, example_timer\<lparr>kt_expirations := 0\<rparr>)],
               [] @ [Call_select (h_fd example_handle), Call_read (h_fd example_handle) 8]))"
    by (rule conjunct1)
  then have "Timerfd_wait ref_kernel example_handle (example_armed_kstate, [])
       = Some (Inr 2, ([(3, example_timer\<lparr>kt_expirations := 0\<rparr>)],
                       [Call_select 3, Call_read 3 8]))"
    unfolding le_sum_two by (simp add: example_handle_def)
  with example_open example_select example_read show ?thesis by (simp only: simp_thms)
qed

section \<open>What the float properties store\<close>













section \<open>The constructor of TimerSpec\<close>






section \<open>The lifecycle of a handle\<close>












end
